theory Spec2Isabelle
  imports Main
begin

section \<open>Data model\<close>

text \<open>
  The security manager of \<^verbatim>\<open>override.py\<close> works on the user table, on the table of
  server-side sessions as the ORM session of the request holds it, and on the request
  context of Flask (flashed messages and \<^verbatim>\<open>g.user\<close>). Exceptions are values of type
  \<open>error\<close>; a method that raises after it has changed the state returns the error
  together with the state it leaves behind.
\<close>

datatype error =
    Exception string
  | KeyError string
  | ValueError
  | TypeError
  | AttributeError
  | BadPayload

record user =
  uid :: int
  username :: string
  password :: string
  active :: bool

text \<open>
  A Python value in identity position: an \<^verbatim>\<open>int\<close>, or a \<^verbatim>\<open>str\<close> as the list of its
  code points.
\<close>

datatype user_key = IntKey int | StrKey "nat list"

record session_record =
  session_id :: string
  data :: string
  expiry :: nat

datatype session_interface = AirflowDatabaseSessionInterface | SecureCookieSessionInterface

text \<open>
  The two messages \<^verbatim>\<open>reset_user_sessions\<close> flashes, with the values interpolated into
  their text: the user name, and for the first the number of sessions counted.
\<close>

datatype flash_message =
    SessionsNotDeleted string nat
  | SecureCookieNotice string

text \<open>The calls a method makes on its collaborators, in the order it makes them.\<close>

datatype call =
    SessionCount
  | SessionQuery
  | SessionDelete session_record
  | Flash flash_message
  | UpdateUser user

record state =
  users :: "int \<rightharpoonup> user"
  session_interface :: session_interface
  sessions :: "session_record list"
  flashes :: "(flash_message \<times> string) list"
  g_user :: "user option"
  calls :: "call list"

definition MAX_NUM_DATABASE_USER_SESSIONS :: nat where
  "MAX_NUM_DATABASE_USER_SESSIONS = 50000"

section \<open>Collaborators\<close>

text \<open>
  Modelled from the spec: \<^verbatim>\<open>get_user_by_id\<close> is inherited from the database mixin
  (\<^verbatim>\<open>modules/db.py\<close>), which is not among the sources. The spec has it load the user
  by id, with \<open>UserNotFound\<close> handed back to the caller when there is none; here that is
  the result \<open>None\<close>.
\<close>

definition get_user_by_id :: "state \<Rightarrow> int \<Rightarrow> user option" where
  "get_user_by_id st pk = users st pk"

text \<open>
  Modelled from the spec: \<^verbatim>\<open>update_user\<close> is inherited as well; the spec has it persist
  the updated user record.
\<close>

definition update_user :: "user \<Rightarrow> state \<Rightarrow> state" where
  "update_user u st = st\<lparr>users := (users st)(uid u \<mapsto> u), calls := calls st @ [UpdateUser u]\<rparr>"

text \<open>\<^verbatim>\<open>session.query(user_session_model).count()\<close>\<close>

definition session_count :: "state \<Rightarrow> nat \<times> state" where
  "session_count st = (length (sessions st), st\<lparr>calls := calls st @ [SessionCount]\<rparr>)"

text \<open>\<^verbatim>\<open>session.query(user_session_model)\<close>, iterated: the rows of the table.\<close>

definition session_query :: "state \<Rightarrow> session_record list \<times> state" where
  "session_query st = (sessions st, st\<lparr>calls := calls st @ [SessionQuery]\<rparr>)"

text \<open>
  \<^verbatim>\<open>session.delete(s)\<close> hands the row \<open>s\<close> to the ORM session, which marks it deleted in
  its unit of work. \<open>sessions\<close> is the table as that session holds it, so the row is gone
  from it; the statement reaches the database only with a flush and is kept only by a
  commit, and \<^verbatim>\<open>override.py\<close> issues neither. Rows are values here, so every row equal
  to \<open>s\<close> goes (the table's key keeps rows distinct).
\<close>

definition session_delete :: "session_record \<Rightarrow> state \<Rightarrow> state" where
  "session_delete s st =
     st\<lparr>sessions := removeAll s (sessions st), calls := calls st @ [SessionDelete s]\<rparr>"

definition flash :: "flash_message \<Rightarrow> string \<Rightarrow> state \<Rightarrow> state" where
  "flash message category st =
     st\<lparr>flashes := flashes st @ [(message, category)], calls := calls st @ [Flash message]\<rparr>"

text \<open>\<^verbatim>\<open>want_bytes\<close> encodes a \<^verbatim>\<open>str\<close> and returns \<^verbatim>\<open>bytes\<close> as they are; \<open>data\<close> is bytes.\<close>

definition want_bytes :: "string \<Rightarrow> string" where
  "want_bytes s = s"

section \<open>Password reset and session revocation\<close>

text \<open>
  The serializer of the session interface is a parameter \<open>loads\<close>: it returns the
  dictionary of session details or raises. So is \<open>generate_password_hash\<close>.
\<close>

type_synonym serializer = "string \<Rightarrow> error + (string \<rightharpoonup> user_key)"

text \<open>
  The \<^verbatim>\<open>for s in session.query(user_session_model)\<close> loop of \<^verbatim>\<open>reset_user_sessions\<close>
  over the rows still to visit. There is no handler around \<^verbatim>\<open>loads\<close>.
\<close>

fun reset_user_sessions_loop ::
  "serializer \<Rightarrow> user \<Rightarrow> session_record list \<Rightarrow> state \<Rightarrow> (error \<times> state) + state" where
  "reset_user_sessions_loop loads u [] st = Inr st"
| "reset_user_sessions_loop loads u (s # rest) st =
     (case loads (want_bytes (data s)) of
        Inl e \<Rightarrow> Inl (e, st)
      | Inr session_details \<Rightarrow>
          if session_details ''_user_id'' = Some (IntKey (uid u))
          then reset_user_sessions_loop loads u rest (session_delete s st)
          else reset_user_sessions_loop loads u rest st)"

definition reset_user_sessions :: "serializer \<Rightarrow> user \<Rightarrow> state \<Rightarrow> (error \<times> state) + state" where
  "reset_user_sessions loads u st =
     (if session_interface st = AirflowDatabaseSessionInterface then
        (case session_count st of (num_sessions, st1) \<Rightarrow>
           if num_sessions > MAX_NUM_DATABASE_USER_SESSIONS then
             Inr (flash (SessionsNotDeleted (username u) num_sessions) ''warning'' st1)
           else
             (case session_query st1 of (rows, st2) \<Rightarrow>
                reset_user_sessions_loop loads u rows st2))
      else Inr (flash (SecureCookieNotice (username u)) ''warning'' st))"

text \<open>
  When \<^verbatim>\<open>get_user_by_id\<close> returns \<^verbatim>\<open>None\<close>, the assignment to \<^verbatim>\<open>user.password\<close> raises
  \<^verbatim>\<open>AttributeError\<close>: the method has no test for it.
\<close>

definition reset_password ::
  "(string \<Rightarrow> string) \<Rightarrow> serializer \<Rightarrow> int \<Rightarrow> string \<Rightarrow> state \<Rightarrow> (error \<times> state) + state" where
  "reset_password generate_password_hash loads userid pw st =
     (case get_user_by_id st userid of
        None \<Rightarrow> Inl (AttributeError, st)
      | Some u0 \<Rightarrow>
          (let u = u0\<lparr>password := generate_password_hash pw\<rparr> in
           case reset_user_sessions loads u st of
             Inl err \<Rightarrow> Inl err
           | Inr st1 \<Rightarrow> Inr (update_user u st1)))"

section \<open>Loading a user\<close>

text \<open>
  A Python \<^verbatim>\<open>str\<close> in identity position is the list of its code points. For code points
  beyond ASCII \<^verbatim>\<open>int\<close> consults two tables of the interpreter's Unicode database,
  \<^verbatim>\<open>Py_UNICODE_ISSPACE\<close> and \<^verbatim>\<open>Py_UNICODE_TODECIMAL\<close>; they are a parameter.
\<close>

record unicode_db =
  isspace :: "nat \<Rightarrow> bool"
  todecimal :: "nat \<Rightarrow> nat option"

text \<open>
  Python's \<^verbatim>\<open>int(x)\<close>. An \<^verbatim>\<open>int\<close> is returned as it is. Of a \<^verbatim>\<open>str\<close>, each code point
  beyond ASCII is first replaced: whitespace by a space, a decimal digit by the ASCII
  digit of its value (from 0 to 9), anything else by a question mark, which no literal
  contains. The ASCII text is then read in base 10: whitespace (tab, line feed, vertical
  tab, form feed, carriage return, space) is skipped at both ends, and what is left must
  be an optional sign followed by decimal digits, where single underscores may separate
  digits; anything else raises \<^verbatim>\<open>ValueError\<close>. The interpreter's configurable limit on
  the number of digits is left out.
\<close>

definition ascii_of :: "unicode_db \<Rightarrow> nat \<Rightarrow> nat" where
  "ascii_of db ch =
     (if ch < 128 then ch
      else if isspace db ch then 32
      else (case todecimal db ch of
              Some d \<Rightarrow> if d < 10 then 48 + d else 63
            | None \<Rightarrow> 63))"

definition is_space :: "nat \<Rightarrow> bool" where
  "is_space c = (c \<in> set [9, 10, 11, 12, 13, 32])"

definition is_digit :: "nat \<Rightarrow> bool" where
  "is_digit c = (48 \<le> c \<and> c \<le> 57)"

definition digit_value :: "nat \<Rightarrow> nat" where
  "digit_value c = c - 48"

definition strip :: "nat list \<Rightarrow> nat list" where
  "strip s = rev (dropWhile is_space (rev (dropWhile is_space s)))"

text \<open>
  The digits after the first one, with the value read so far; 95 is the underscore, 45
  the minus and 43 the plus sign.
\<close>

fun more_digits :: "nat \<Rightarrow> nat list \<Rightarrow> nat option" where
  "more_digits acc [] = Some acc"
| "more_digits acc [c] = (if is_digit c then Some (10 * acc + digit_value c) else None)"
| "more_digits acc (c # d # cs) =
     (if is_digit c then more_digits (10 * acc + digit_value c) (d # cs)
      else if c = 95 \<and> is_digit d then more_digits (10 * acc + digit_value d) cs
      else None)"

definition parse_digits :: "nat list \<Rightarrow> nat option" where
  "parse_digits s =
     (case s of
        [] \<Rightarrow> None
      | c # cs \<Rightarrow> if is_digit c then more_digits (digit_value c) cs else None)"

definition long_from_string :: "nat list \<Rightarrow> error + int" where
  "long_from_string s =
     (case strip s of
        [] \<Rightarrow> Inl ValueError
      | c # cs \<Rightarrow>
          if c = 45 then
            (case parse_digits cs of None \<Rightarrow> Inl ValueError | Some n \<Rightarrow> Inr (- int n))
          else if c = 43 then
            (case parse_digits cs of None \<Rightarrow> Inl ValueError | Some n \<Rightarrow> Inr (int n))
          else
            (case parse_digits (c # cs) of None \<Rightarrow> Inl ValueError | Some n \<Rightarrow> Inr (int n)))"

definition int_of_string :: "unicode_db \<Rightarrow> nat list \<Rightarrow> error + int" where
  "int_of_string db s = long_from_string (map (ascii_of db) s)"

fun py_int :: "unicode_db \<Rightarrow> user_key \<Rightarrow> error + int" where
  "py_int db (IntKey n) = Inr n"
| "py_int db (StrKey s) = int_of_string db s"

definition load_user :: "unicode_db \<Rightarrow> state \<Rightarrow> user_key \<Rightarrow> error + user option" where
  "load_user db st user_id =
     (case py_int db user_id of
        Inl err \<Rightarrow> Inl err
      | Inr pk \<Rightarrow> Inr (get_user_by_id st pk))"

text \<open>
  \<^verbatim>\<open>load_user_jwt\<close> returns the user and leaves it in \<^verbatim>\<open>g.user\<close>. A payload without
  the key \<^verbatim>\<open>sub\<close> raises \<^verbatim>\<open>KeyError\<close>; nothing is written before an exception.
\<close>

definition load_user_jwt ::
  "unicode_db \<Rightarrow> state \<Rightarrow> 'h \<Rightarrow> (string \<rightharpoonup> user_key) \<Rightarrow> error + (user option \<times> state)" where
  "load_user_jwt db st jwt_header jwt_data =
     (case jwt_data ''sub'' of
        None \<Rightarrow> Inl (KeyError ''sub'')
      | Some identity \<Rightarrow>
          (case load_user db st identity of
             Inl err \<Rightarrow> Inl err
           | Inr u \<Rightarrow> Inr (u, st\<lparr>g_user := u\<rparr>)))"

text \<open>Python's \<^verbatim>\<open>str(n)\<close> of an integer: its decimal digits, after a minus sign if negative.\<close>

fun decimal_digits :: "nat \<Rightarrow> nat list \<Rightarrow> nat list" where
  "decimal_digits n acc =
     (if n < 10 then (48 + n) # acc
      else decimal_digits (n div 10) ((48 + n mod 10) # acc))"

definition decimal_string :: "int \<Rightarrow> nat list" where
  "decimal_string n =
     (if n < 0 then 45 # decimal_digits (nat (- n)) [] else decimal_digits (nat n) [])"

section \<open>Startup configuration\<close>

datatype auth_type = AUTH_OID | AUTH_DB | AUTH_LDAP | AUTH_REMOTE_USER | AUTH_OAUTH

text \<open>One entry of \<^verbatim>\<open>OAUTH_PROVIDERS\<close>; the key \<^verbatim>\<open>whitelist\<close> is optional.\<close>

record provider =
  name :: string
  remote_app :: "(string \<times> string) list"
  whitelist :: "string list option"

datatype config_value =
    CNone
  | CBool bool
  | CStr string
  | CAuthType auth_type
  | CRolesMapping "(string \<times> string list) list"
  | CProviders "provider list"

type_synonym config = "string \<rightharpoonup> config_value"

definition setdefault :: "string \<Rightarrow> config_value \<Rightarrow> config \<Rightarrow> config" where
  "setdefault k v cfg = (case cfg k of None \<Rightarrow> cfg(k \<mapsto> v) | Some _ \<Rightarrow> cfg)"

text \<open>A run of \<^verbatim>\<open>app.config.setdefault(k, v)\<close> statements, in the order written.\<close>

definition setdefaults :: "(string \<times> config_value) list \<Rightarrow> config \<Rightarrow> config" where
  "setdefaults kvs cfg = fold (\<lambda>(k, v). setdefault k v) kvs cfg"

text \<open>\<^verbatim>\<open>app.config[k]\<close>\<close>

definition config_item :: "config \<Rightarrow> string \<Rightarrow> error + config_value" where
  "config_item cfg k = (case cfg k of None \<Rightarrow> Inl (KeyError k) | Some v \<Rightarrow> Inr v)"

definition auth_type :: "config \<Rightarrow> error + config_value" where
  "auth_type cfg = config_item cfg ''AUTH_TYPE''"

definition auth_role_public :: "config \<Rightarrow> error + config_value" where
  "auth_role_public cfg = config_item cfg ''AUTH_ROLE_PUBLIC''"

definition oauth_providers :: "config \<Rightarrow> error + config_value" where
  "oauth_providers cfg = config_item cfg ''OAUTH_PROVIDERS''"

definition base_defaults :: "(string \<times> config_value) list" where
  "base_defaults =
     [(''AUTH_ROLE_ADMIN'', CStr ''Admin''),
      (''AUTH_ROLE_PUBLIC'', CStr ''Public''),
      (''AUTH_TYPE'', CAuthType AUTH_DB),
      (''AUTH_USER_REGISTRATION'', CBool False)]"

definition registration_defaults :: "config_value \<Rightarrow> (string \<times> config_value) list" where
  "registration_defaults role_public =
     [(''AUTH_USER_REGISTRATION_ROLE'', role_public),
      (''AUTH_USER_REGISTRATION_ROLE_JMESPATH'', CNone),
      (''AUTH_ROLES_MAPPING'', CRolesMapping []),
      (''AUTH_ROLES_SYNC_AT_LOGIN'', CBool False),
      (''AUTH_API_LOGIN_ALLOW_MULTIPLE_PROVIDERS'', CBool False)]"

definition ldap_defaults :: "(string \<times> config_value) list" where
  "ldap_defaults =
     [(''AUTH_LDAP_SEARCH'', CStr ''''),
      (''AUTH_LDAP_SEARCH_FILTER'', CStr ''''),
      (''AUTH_LDAP_APPEND_DOMAIN'', CStr ''''),
      (''AUTH_LDAP_USERNAME_FORMAT'', CStr ''''),
      (''AUTH_LDAP_BIND_USER'', CStr ''''),
      (''AUTH_LDAP_BIND_PASSWORD'', CStr ''''),
      (''AUTH_LDAP_USE_TLS'', CBool False),
      (''AUTH_LDAP_ALLOW_SELF_SIGNED'', CBool False),
      (''AUTH_LDAP_TLS_DEMAND'', CBool False),
      (''AUTH_LDAP_TLS_CACERTDIR'', CStr ''''),
      (''AUTH_LDAP_TLS_CACERTFILE'', CStr ''''),
      (''AUTH_LDAP_TLS_CERTFILE'', CStr ''''),
      (''AUTH_LDAP_TLS_KEYFILE'', CStr ''''),
      (''AUTH_LDAP_UID_FIELD'', CStr ''uid''),
      (''AUTH_LDAP_GROUP_FIELD'', CStr ''memberOf''),
      (''AUTH_LDAP_FIRSTNAME_FIELD'', CStr ''givenName''),
      (''AUTH_LDAP_LASTNAME_FIELD'', CStr ''sn''),
      (''AUTH_LDAP_EMAIL_FIELD'', CStr ''mail'')]"

definition rate_limit_defaults :: "(string \<times> config_value) list" where
  "rate_limit_defaults =
     [(''AUTH_RATE_LIMITED'', CBool True),
      (''AUTH_RATE_LIMIT'', CStr ''5 per 40 second'')]"

definition init_config :: "config \<Rightarrow> error + config" where
  "init_config cfg0 =
     (let cfg1 = setdefaults base_defaults cfg0 in
      case auth_role_public cfg1 of
        Inl err \<Rightarrow> Inl err
      | Inr role_public \<Rightarrow>
          (let cfg2 = setdefaults (registration_defaults role_public) cfg1 in
           case auth_type cfg2 of
             Inl err \<Rightarrow> Inl err
           | Inr t \<Rightarrow>
               if t = CAuthType AUTH_LDAP then
                 (if cfg2 ''AUTH_LDAP_SERVER'' = None then
                    Inl (Exception
                      ''No AUTH_LDAP_SERVER defined on config with AUTH_LDAP authentication type.'')
                  else Inr (setdefaults rate_limit_defaults (setdefaults ldap_defaults cfg2)))
               else Inr (setdefaults rate_limit_defaults cfg2)))"

text \<open>
  The fields of the manager that \<^verbatim>\<open>_init_auth\<close> touches. \<open>oauth_allow_list\<close> is the
  class attribute, \<^verbatim>\<open>{}\<close> when the class is defined; a registered remote application
  stands for the settings it was registered with.
\<close>

record manager =
  config :: config
  oauth_allow_list :: "string \<rightharpoonup> string list"
  oauth_remotes :: "string \<rightharpoonup> (string \<times> string) list"
  oauth_user_info :: "string option"
  oid :: bool

text \<open>The body of the \<^verbatim>\<open>for provider in self.oauth_providers\<close> loop, and the loop.\<close>

definition register_provider :: "provider \<Rightarrow> manager \<Rightarrow> manager" where
  "register_provider p m =
     (let provider_name = name p;
          m1 = (if oauth_user_info m = None
                then m\<lparr>oauth_user_info := Some ''get_oauth_user_info''\<rparr> else m);
          m2 = (case whitelist p of
                  Some allowed \<Rightarrow>
                    m1\<lparr>oauth_allow_list := (oauth_allow_list m1)(provider_name \<mapsto> allowed)\<rparr>
                | None \<Rightarrow> m1)
      in m2\<lparr>oauth_remotes := (oauth_remotes m2)(provider_name \<mapsto> remote_app p)\<rparr>)"

fun register_providers :: "provider list \<Rightarrow> manager \<Rightarrow> manager" where
  "register_providers [] m = m"
| "register_providers (p # ps) m = register_providers ps (register_provider p m)"

text \<open>
  \<^verbatim>\<open>_init_auth\<close> only iterates over \<^verbatim>\<open>OAUTH_PROVIDERS\<close>. A value that cannot be iterated
  raises \<^verbatim>\<open>TypeError\<close>; so does the first element of a string or the first key of a
  dictionary, which is a string and has no item \<^verbatim>\<open>name\<close>; an empty string or dictionary
  ends the loop at once.
\<close>

definition init_auth :: "manager \<Rightarrow> error + manager" where
  "init_auth m =
     (case auth_type (config m) of
        Inl err \<Rightarrow> Inl err
      | Inr t \<Rightarrow>
          (let m1 = (if t = CAuthType AUTH_OID then m\<lparr>oid := True\<rparr> else m) in
           if t = CAuthType AUTH_OAUTH then
             (let m2 = m1\<lparr>oauth_remotes := Map.empty\<rparr> in
              case oauth_providers (config m1) of
                Inl err \<Rightarrow> Inl err
              | Inr (CProviders ps) \<Rightarrow> Inr (register_providers ps m2)
              | Inr (CStr s) \<Rightarrow> if s = [] then Inr m2 else Inl TypeError
              | Inr (CRolesMapping d) \<Rightarrow> if d = [] then Inr m2 else Inl TypeError
              | Inr _ \<Rightarrow> Inl TypeError)
           else Inr m1))"

section \<open>Vocabulary of the properties\<close>

text \<open>
  The owner of a session row is the \<^verbatim>\<open>_user_id\<close> of its deserialized payload; a row is
  readable when its payload deserializes.
\<close>

definition owner :: "serializer \<Rightarrow> session_record \<Rightarrow> user_key option" where
  "owner loads s = (case loads (want_bytes (data s)) of Inl _ \<Rightarrow> None | Inr d \<Rightarrow> d ''_user_id'')"

definition owned_by :: "serializer \<Rightarrow> user \<Rightarrow> session_record \<Rightarrow> bool" where
  "owned_by loads u s = (owner loads s = Some (IntKey (uid u)))"

definition readable :: "serializer \<Rightarrow> session_record \<Rightarrow> bool" where
  "readable loads s = (case loads (want_bytes (data s)) of Inl _ \<Rightarrow> False | Inr _ \<Rightarrow> True)"

text \<open>
  Order of calls. The update of the user table is the call \<open>UpdateUser\<close>; the calls of
  the revocation on the session table are the count, the query and the deletes (a flashed
  message is neither). \<open>happens_before P Q cs\<close> holds when a call satisfying \<open>P\<close> is
  made before any call satisfying \<open>Q\<close>, and a call satisfying \<open>Q\<close> is made after it.
\<close>

fun is_update_user :: "call \<Rightarrow> bool" where
  "is_update_user (UpdateUser _) = True"
| "is_update_user _ = False"

fun is_revocation :: "call \<Rightarrow> bool" where
  "is_revocation SessionCount = True"
| "is_revocation SessionQuery = True"
| "is_revocation (SessionDelete _) = True"
| "is_revocation _ = False"

fun happens_before :: "('a \<Rightarrow> bool) \<Rightarrow> ('a \<Rightarrow> bool) \<Rightarrow> 'a list \<Rightarrow> bool" where
  "happens_before P Q [] = False"
| "happens_before P Q (x # xs) =
     (if Q x then False else if P x then list_ex Q xs else happens_before P Q xs)"


text \<open>
  What a configuration holds for a key, or the given default: the value the key has once
  \<^verbatim>\<open>setdefault\<close> has run for it.
\<close>

definition config_or :: "config \<Rightarrow> string \<Rightarrow> config_value \<Rightarrow> config_value" where
  "config_or cfg k d = (case cfg k of None \<Rightarrow> d | Some v \<Rightarrow> v)"

text \<open>The auth type in force: \<^verbatim>\<open>AUTH_TYPE\<close> as configured, \<^verbatim>\<open>AUTH_DB\<close> when it is not.\<close>

definition configured_auth_type :: "config \<Rightarrow> config_value" where
  "configured_auth_type cfg = config_or cfg ''AUTH_TYPE'' (CAuthType AUTH_DB)"

section \<open>Example inputs\<close>

definition example_loads :: serializer where
  "example_loads d =
     (if d = ''user=7'' then Inr [''_user_id'' \<mapsto> IntKey 7]
      else if d = ''user=9'' then Inr [''_user_id'' \<mapsto> IntKey 9]
      else Inl BadPayload)"

definition example_hash :: "string \<Rightarrow> string" where
  "example_hash pw = ''pbkdf2:'' @ pw"

definition example_user :: "int \<Rightarrow> user" where
  "example_user n = \<lparr>uid = n, username = ''ann'', password = ''old'', active = True\<rparr>"

definition example_row :: "string \<Rightarrow> nat \<Rightarrow> session_record" where
  "example_row d i = \<lparr>session_id = ''s'', data = d, expiry = i\<rparr>"

definition example_rows :: "string \<Rightarrow> nat \<Rightarrow> session_record list" where
  "example_rows d n = map (example_row d) [0..<n]"

definition example_state :: "session_interface \<Rightarrow> session_record list \<Rightarrow> state" where
  "example_state si rows =
     \<lparr>users = [7 \<mapsto> example_user 7], session_interface = si, sessions = rows,
      flashes = [], g_user = None, calls = []\<rparr>"

text \<open>The code points of a \<^verbatim>\<open>str\<close> written in ASCII.\<close>

definition code_points :: "string \<Rightarrow> nat list" where
  "code_points s = map of_char s"

text \<open>
  A Unicode database with the whitespace beyond ASCII (among it the no-break space, 160)
  and, of the decimal digits, the Arabic-Indic ones from 1632 to 1641.
\<close>

definition example_unicode_db :: unicode_db where
  "example_unicode_db =
     \<lparr>isspace = (\<lambda>c. c \<in> set [133, 160, 5760, 8232, 8233, 8239, 8287, 12288] \<or>
                       (8192 \<le> c \<and> c \<le> 8202)),
      todecimal = (\<lambda>c. if 1632 \<le> c \<and> c \<le> 1641 then Some (c - 1632) else None)\<rparr>"

definition example_ldap_config :: config where
  "example_ldap_config =
     [''AUTH_TYPE'' \<mapsto> CAuthType AUTH_LDAP,
      ''AUTH_LDAP_SERVER'' \<mapsto> CStr ''ldap://ldap.example.com'',
      ''AUTH_LDAP_UID_FIELD'' \<mapsto> CStr ''cn'']"

definition example_oauth_manager :: manager where
  "example_oauth_manager =
     \<lparr>config =
        [''AUTH_TYPE'' \<mapsto> CAuthType AUTH_OAUTH,
         ''OAUTH_PROVIDERS'' \<mapsto> CProviders
            [\<lparr>name = ''google'', remote_app = [(''client_id'', ''g'')],
              whitelist = Some [''ann@example.com'']\<rparr>,
             \<lparr>name = ''github'', remote_app = [(''client_id'', ''h'')], whitelist = None\<rparr>]],
      oauth_allow_list = Map.empty, oauth_remotes = Map.empty, oauth_user_info = None,
      oid = False\<rparr>"

section \<open>The deletion loop\<close>

lemma loop_readable:
  "list_all (readable loads) rows \<Longrightarrow>
   reset_user_sessions_loop loads u rows st =
     Inr (st\<lparr>sessions := filter (\<lambda>r. r \<notin> set (filter (owned_by loads u) rows)) (sessions st),
             calls := calls st @ map SessionDelete (filter (owned_by loads u) rows)\<rparr>)"
proof (induction rows arbitrary: st)
  case Nil
  then show ?case by simp
next
  case (Cons s rows)
  then obtain d where d: "loads (want_bytes (data s)) = Inr d"
    by (auto simp: readable_def split: sum.splits)
  from Cons.prems have rest: "list_all (readable loads) rows" by simp
  show ?case
  proof (cases "d ''_user_id'' = Some (IntKey (uid u))")
    case True
    then have o: "owned_by loads u s" by (simp add: owned_by_def owner_def d)
    have flip: "\<And>P. (\<lambda>x. s \<noteq> x \<and> P x) = (\<lambda>r. r \<noteq> s \<and> P r)" by auto
    show ?thesis
      using True d o Cons.IH [OF rest, of "session_delete s st"]
      by (simp add: session_delete_def removeAll_filter_not_eq flip)
  next
    case False
    then have o: "\<not> owned_by loads u s" by (simp add: owned_by_def owner_def d)
    show ?thesis
      using False d o Cons.IH [OF rest, of st] by simp
  qed
qed

lemma loop_append:
  "reset_user_sessions_loop loads u (pre @ post) st =
     (case reset_user_sessions_loop loads u pre st of
        Inl x \<Rightarrow> Inl x
      | Inr st' \<Rightarrow> reset_user_sessions_loop loads u post st')"
  by (induction pre arbitrary: st) (auto split: sum.splits)

lemma loop_returns_readable:
  "reset_user_sessions_loop loads u rows st = Inr st' \<Longrightarrow> list_all (readable loads) rows"
  by (induction rows arbitrary: st) (auto simp: readable_def split: sum.splits if_splits)

lemma owned_by_password: "owned_by loads (u\<lparr>password := p\<rparr>) = owned_by loads u"
  by (rule ext) (simp add: owned_by_def)

lemma reset_user_sessions_returns:
  assumes "reset_user_sessions loads u st = Inr st1"
  shows "users st1 = users st"
    and "session_interface st \<noteq> AirflowDatabaseSessionInterface \<Longrightarrow>
         calls st1 = calls st @ [Flash (SecureCookieNotice (username u))]"
    and "session_interface st = AirflowDatabaseSessionInterface \<Longrightarrow>
         50000 < length (sessions st) \<Longrightarrow>
         calls st1 = calls st @
           [SessionCount, Flash (SessionsNotDeleted (username u) (length (sessions st)))]"
    and "session_interface st = AirflowDatabaseSessionInterface \<Longrightarrow>
         length (sessions st) \<le> 50000 \<Longrightarrow>
         calls st1 = calls st @ [SessionCount, SessionQuery] @
           map SessionDelete (filter (owned_by loads u) (sessions st))"
proof -
  let ?st2 = "st\<lparr>calls := calls st @ [SessionCount, SessionQuery]\<rparr>"
  have loop: "reset_user_sessions_loop loads u (sessions st) ?st2 = Inr st1"
    if "session_interface st = AirflowDatabaseSessionInterface" "length (sessions st) \<le> 50000"
    using assms that
    by (simp add: reset_user_sessions_def session_count_def session_query_def
        MAX_NUM_DATABASE_USER_SESSIONS_def)
  have within: "st1 = ?st2\<lparr>sessions :=
        filter (\<lambda>r. r \<notin> set (filter (owned_by loads u) (sessions st))) (sessions ?st2),
      calls := calls ?st2 @ map SessionDelete (filter (owned_by loads u) (sessions st))\<rparr>"
    if "session_interface st = AirflowDatabaseSessionInterface" "length (sessions st) \<le> 50000"
    using loop [OF that] loop_readable [OF loop_returns_readable [OF loop [OF that]], of u ?st2]
    by simp
  show "session_interface st \<noteq> AirflowDatabaseSessionInterface \<Longrightarrow>
         calls st1 = calls st @ [Flash (SecureCookieNotice (username u))]"
    using assms by (auto simp: reset_user_sessions_def flash_def)
  show "session_interface st = AirflowDatabaseSessionInterface \<Longrightarrow>
         50000 < length (sessions st) \<Longrightarrow>
         calls st1 = calls st @
           [SessionCount, Flash (SessionsNotDeleted (username u) (length (sessions st)))]"
    using assms
    by (auto simp: reset_user_sessions_def flash_def session_count_def
        MAX_NUM_DATABASE_USER_SESSIONS_def)
  show "session_interface st = AirflowDatabaseSessionInterface \<Longrightarrow>
         length (sessions st) \<le> 50000 \<Longrightarrow>
         calls st1 = calls st @ [SessionCount, SessionQuery] @
           map SessionDelete (filter (owned_by loads u) (sessions st))"
    by (subst within) simp_all
  show "users st1 = users st"
  proof (cases "session_interface st = AirflowDatabaseSessionInterface")
    case False
    with assms show ?thesis by (auto simp: reset_user_sessions_def flash_def)
  next
    case True
    show ?thesis
    proof (cases "length (sessions st) \<le> 50000")
      case le: True
      show ?thesis by (subst within [OF True le]) simp
    next
      case False
      with True assms show ?thesis
        by (auto simp: reset_user_sessions_def flash_def session_count_def
            MAX_NUM_DATABASE_USER_SESSIONS_def)
    qed
  qed
qed

lemma length_example_rows: "length (example_rows d n) = n"
  by (simp add: example_rows_def)

lemma example_rows_readable: "list_all (readable example_loads) (example_rows ''user=7'' n)"
  by (simp add: example_rows_def list_all_iff readable_def example_loads_def example_row_def
      want_bytes_def)

lemma example_rows_owned:
  "filter (owned_by example_loads (example_user 7)) (example_rows ''user=7'' n) = example_rows ''user=7'' n"
  by (simp add: example_rows_def owned_by_def owner_def example_loads_def example_row_def
      example_user_def want_bytes_def)

section \<open>Order of the credential update and the revocation\<close>

text \<open>
  Claim C1, as the code has it. Every call of \<^verbatim>\<open>reset_password\<close> that returns has found
  the user and has run \<^verbatim>\<open>reset_user_sessions\<close> on the user object carrying the new hash,
  to its end, while the user table still held what it held before; \<^verbatim>\<open>update_user\<close> is
  the one call made after that, on the state the revocation left. The calls before it are:
  with a database session interface and a table within the threshold, the count, the query
  and a delete for each session of the user; over the threshold, the count and a flashed
  warning; without a database session interface, a flashed warning only. With a database
  session interface the revocation's calls on the session table so come before the update
  of the user table.
\<close>

theorem reset_password_revokes_before_update:
  assumes "reset_password h loads userid pw st = Inr st'"
  shows "\<exists>u0 st1 rc.
           get_user_by_id st userid = Some u0 \<and>
           reset_user_sessions loads (u0\<lparr>password := h pw\<rparr>) st = Inr st1 \<and>
           users st1 = users st \<and>
           calls st1 = calls st @ rc \<and>
           st' = update_user (u0\<lparr>password := h pw\<rparr>) st1 \<and>
           calls st' = calls st @ rc @ [UpdateUser (u0\<lparr>password := h pw\<rparr>)] \<and>
           list_all (\<lambda>c. \<not> is_update_user c) rc \<and>
           (session_interface st = AirflowDatabaseSessionInterface \<longrightarrow>
              happens_before is_revocation is_update_user
                (rc @ [UpdateUser (u0\<lparr>password := h pw\<rparr>)])) \<and>
           (session_interface st = AirflowDatabaseSessionInterface \<and>
            length (sessions st) \<le> 50000 \<longrightarrow>
              rc = [SessionCount, SessionQuery] @
                   map SessionDelete (filter (owned_by loads u0) (sessions st))) \<and>
           (session_interface st = AirflowDatabaseSessionInterface \<and>
            50000 < length (sessions st) \<longrightarrow>
              rc = [SessionCount,
                    Flash (SessionsNotDeleted (username u0) (length (sessions st)))]) \<and>
           (session_interface st \<noteq> AirflowDatabaseSessionInterface \<longrightarrow>
              rc = [Flash (SecureCookieNotice (username u0))])"
proof -
  from assms obtain u0 where u0: "get_user_by_id st userid = Some u0"
    by (auto simp: reset_password_def split: option.splits)
  let ?u = "u0\<lparr>password := h pw\<rparr>"
  from assms u0 obtain st1 where
    st1: "reset_user_sessions loads ?u st = Inr st1" and st': "st' = update_user ?u st1"
    by (auto simp: reset_password_def Let_def split: sum.splits)
  note r = reset_user_sessions_returns [OF st1, unfolded owned_by_password]
  define rc where "rc =
    (if session_interface st \<noteq> AirflowDatabaseSessionInterface
     then [Flash (SecureCookieNotice (username u0))]
     else if 50000 < length (sessions st)
     then [SessionCount, Flash (SessionsNotDeleted (username u0) (length (sessions st)))]
     else [SessionCount, SessionQuery] @
          map SessionDelete (filter (owned_by loads u0) (sessions st)))"
  have c1: "calls st1 = calls st @ rc"
    using r(2,3,4) by (auto simp: rc_def not_less)
  have c': "calls st' = calls st @ rc @ [UpdateUser ?u]"
    by (simp add: st' update_user_def c1)
  have no: "list_all (\<lambda>c. \<not> is_update_user c) rc"
    by (simp add: rc_def list_all_iff)
  have hb: "happens_before is_revocation is_update_user (rc @ [UpdateUser ?u])"
    if "session_interface st = AirflowDatabaseSessionInterface"
    using that by (simp add: rc_def)
  show ?thesis
    apply (rule exI [of _ u0], rule exI [of _ st1], rule exI [of _ rc])
    apply (intro conjI impI u0 st1 r(1) c1 st' c' no)
       apply (erule hb)
      apply (simp add: rc_def)
     apply (simp add: rc_def)
    apply (simp add: rc_def)
    done
qed

text \<open>
  The theorem at a reset for user 7 over a database table with one session of user 9 and
  two of user 7: both are handed to \<^verbatim>\<open>session.delete\<close> before the user is updated.
\<close>

theorem reset_password_revokes_before_update_witness:
  "reset_password example_hash example_loads 7 ''new''
     (example_state AirflowDatabaseSessionInterface
        [example_row ''user=9'' 1, example_row ''user=7'' 2, example_row ''user=7'' 3])
   = Inr ((example_state AirflowDatabaseSessionInterface [example_row ''user=9'' 1])
            \<lparr>users := [7 \<mapsto> (example_user 7)\<lparr>password := ''pbkdf2:new''\<rparr>],
             calls := [SessionCount, SessionQuery, SessionDelete (example_row ''user=7'' 2),
                       SessionDelete (example_row ''user=7'' 3),
                       UpdateUser ((example_user 7)\<lparr>password := ''pbkdf2:new''\<rparr>)]\<rparr>)
   \<and> happens_before is_revocation is_update_user
        (calls ((example_state AirflowDatabaseSessionInterface [example_row ''user=9'' 1])
            \<lparr>users := [7 \<mapsto> (example_user 7)\<lparr>password := ''pbkdf2:new''\<rparr>],
             calls := [SessionCount, SessionQuery, SessionDelete (example_row ''user=7'' 2),
                       SessionDelete (example_row ''user=7'' 3),
                       UpdateUser ((example_user 7)\<lparr>password := ''pbkdf2:new''\<rparr>)]\<rparr>))"
proof -
  let ?st = "example_state AirflowDatabaseSessionInterface
        [example_row ''user=9'' 1, example_row ''user=7'' 2, example_row ''user=7'' 3]"
  let ?st' = "(example_state AirflowDatabaseSessionInterface [example_row ''user=9'' 1])
            \<lparr>users := [7 \<mapsto> (example_user 7)\<lparr>password := ''pbkdf2:new''\<rparr>],
             calls := [SessionCount, SessionQuery, SessionDelete (example_row ''user=7'' 2),
                       SessionDelete (example_row ''user=7'' 3),
                       UpdateUser ((example_user 7)\<lparr>password := ''pbkdf2:new''\<rparr>)]\<rparr>"
  have run: "reset_password example_hash example_loads 7 ''new'' ?st = Inr ?st'"
    by (simp add: reset_password_def reset_user_sessions_def get_user_by_id_def update_user_def
        session_count_def session_query_def session_delete_def want_bytes_def Let_def
        MAX_NUM_DATABASE_USER_SESSIONS_def
        example_state_def example_loads_def example_hash_def example_user_def example_row_def)
  have db: "session_interface ?st = AirflowDatabaseSessionInterface" and nil: "calls ?st = []"
    by (simp_all add: example_state_def)
  from reset_password_revokes_before_update [OF run] obtain u rc where
    "calls ?st' = calls ?st @ rc @ [UpdateUser u]"
    "session_interface ?st = AirflowDatabaseSessionInterface \<longrightarrow>
       happens_before is_revocation is_update_user (rc @ [UpdateUser u])"
    by blast
  with db nil have "happens_before is_revocation is_update_user (calls ?st')"
    by simp
  with run show ?thesis by (rule conjI)
qed

text \<open>
  Claim C1 as stated asks for \<^verbatim>\<open>update_user\<close> strictly before the revocation. A reset for
  user 7 over a table holding one session of user 7 and one of user 9 counts, queries and
  deletes first and updates the user last.
\<close>

theorem reset_password_update_first_counterexample:
  "reset_password example_hash example_loads 7 ''new''
     (example_state AirflowDatabaseSessionInterface [example_row ''user=7'' 1, example_row ''user=9'' 2])
   = Inr ((example_state AirflowDatabaseSessionInterface [example_row ''user=9'' 2])
            \<lparr>users := [7 \<mapsto> (example_user 7)\<lparr>password := ''pbkdf2:new''\<rparr>],
             calls := [SessionCount, SessionQuery, SessionDelete (example_row ''user=7'' 1),
                       UpdateUser ((example_user 7)\<lparr>password := ''pbkdf2:new''\<rparr>)]\<rparr>)
   \<and> \<not> happens_before is_update_user is_revocation
         [SessionCount, SessionQuery, SessionDelete (example_row ''user=7'' 1),
          UpdateUser ((example_user 7)\<lparr>password := ''pbkdf2:new''\<rparr>)]"
  by (simp add: reset_password_def reset_user_sessions_def get_user_by_id_def update_user_def
      session_count_def session_query_def session_delete_def want_bytes_def Let_def
      MAX_NUM_DATABASE_USER_SESSIONS_def
      example_state_def example_loads_def example_hash_def example_user_def example_row_def)

section \<open>The threshold of the revocation\<close>

text \<open>
  Claim C2. With a database session interface, when the table holds more than 50000
  sessions \<^verbatim>\<open>reset_user_sessions\<close> returns after the count and one flashed warning, the
  table as it was; when it holds 50000 or fewer it goes on to query the table and runs the
  deletion loop over its rows.
\<close>

theorem reset_user_sessions_threshold:
  assumes "session_interface st = AirflowDatabaseSessionInterface"
  shows "(50000 < length (sessions st) \<longrightarrow>
            reset_user_sessions loads u st =
              Inr (st\<lparr>flashes := flashes st @
                         [(SessionsNotDeleted (username u) (length (sessions st)), ''warning'')],
                      calls := calls st @
                         [SessionCount, Flash (SessionsNotDeleted (username u) (length (sessions st)))]\<rparr>))
       \<and> (length (sessions st) \<le> 50000 \<longrightarrow>
            reset_user_sessions loads u st =
              reset_user_sessions_loop loads u (sessions st)
                (st\<lparr>calls := calls st @ [SessionCount, SessionQuery]\<rparr>))"
  using assms
  by (simp add: reset_user_sessions_def session_count_def session_query_def flash_def
      MAX_NUM_DATABASE_USER_SESSIONS_def)

text \<open>
  The theorem at the boundary: 50001 sessions of user 7 are all kept, 50000 are all deleted.
\<close>

theorem reset_user_sessions_threshold_witness:
  "reset_user_sessions example_loads (example_user 7)
     (example_state AirflowDatabaseSessionInterface (example_rows ''user=7'' 50001))
   = Inr ((example_state AirflowDatabaseSessionInterface (example_rows ''user=7'' 50001))
            \<lparr>flashes := [(SessionsNotDeleted ''ann'' 50001, ''warning'')],
             calls := [SessionCount, Flash (SessionsNotDeleted ''ann'' 50001)]\<rparr>)
   \<and> reset_user_sessions example_loads (example_user 7)
     (example_state AirflowDatabaseSessionInterface (example_rows ''user=7'' 50000))
   = Inr ((example_state AirflowDatabaseSessionInterface [])
            \<lparr>calls := [SessionCount, SessionQuery] @
                      map SessionDelete (example_rows ''user=7'' 50000)\<rparr>)"
proof -
  let ?over = "example_state AirflowDatabaseSessionInterface (example_rows ''user=7'' 50001)"
  let ?full = "example_state AirflowDatabaseSessionInterface (example_rows ''user=7'' 50000)"
  have over: "session_interface ?over = AirflowDatabaseSessionInterface"
    and full: "session_interface ?full = AirflowDatabaseSessionInterface"
    by (simp_all add: example_state_def)
  have "50000 < length (sessions ?over)" and "length (sessions ?full) \<le> 50000"
    by (simp_all add: example_state_def length_example_rows)
  with reset_user_sessions_threshold [OF over, of example_loads "example_user 7"]
    reset_user_sessions_threshold [OF full, of example_loads "example_user 7"]
  have a: "reset_user_sessions example_loads (example_user 7) ?over =
      Inr (?over\<lparr>flashes := flashes ?over @
             [(SessionsNotDeleted (username (example_user 7)) (length (sessions ?over)), ''warning'')],
           calls := calls ?over @
             [SessionCount, Flash (SessionsNotDeleted (username (example_user 7)) (length (sessions ?over)))]\<rparr>)"
    and b: "reset_user_sessions example_loads (example_user 7) ?full =
      reset_user_sessions_loop example_loads (example_user 7) (sessions ?full)
        (?full\<lparr>calls := calls ?full @ [SessionCount, SessionQuery]\<rparr>)"
    by blast+
  have c: "sessions ?full = example_rows ''user=7'' 50000"
    by (simp add: example_state_def)
  show ?thesis
    unfolding a b c loop_readable [OF example_rows_readable] example_rows_owned
    by (simp add: example_state_def example_user_def length_example_rows)
qed

section \<open>The set of deleted sessions\<close>

text \<open>
  Claim C3, as the code has it. With a database session interface, at most 50000 sessions
  and every payload deserializable, \<^verbatim>\<open>reset_user_sessions\<close> returns with the table
  holding exactly the rows not owned by the user, in their order, having deleted each row
  the user owns; nothing else of the state changes but the record of calls.
\<close>

theorem reset_user_sessions_exact:
  assumes "session_interface st = AirflowDatabaseSessionInterface"
      and "length (sessions st) \<le> 50000"
      and "list_all (readable loads) (sessions st)"
  shows "reset_user_sessions loads u st =
           Inr (st\<lparr>sessions := filter (\<lambda>s. \<not> owned_by loads u s) (sessions st),
                   calls := calls st @ [SessionCount, SessionQuery] @
                            map SessionDelete (filter (owned_by loads u) (sessions st))\<rparr>)"
proof -
  have "filter (\<lambda>r. r \<notin> set (filter (owned_by loads u) (sessions st))) (sessions st)
        = filter (\<lambda>s. \<not> owned_by loads u s) (sessions st)"
    by (rule filter_cong) auto
  with assms loop_readable [of loads "sessions st" u "st\<lparr>calls := calls st @ [SessionCount, SessionQuery]\<rparr>"]
  show ?thesis
    by (simp add: reset_user_sessions_def session_count_def session_query_def
        MAX_NUM_DATABASE_USER_SESSIONS_def)
qed

text \<open>The theorem on two sessions of user 7 around one of user 9.\<close>

theorem reset_user_sessions_exact_witness:
  "reset_user_sessions example_loads (example_user 7)
     (example_state AirflowDatabaseSessionInterface
        [example_row ''user=7'' 1, example_row ''user=9'' 2, example_row ''user=7'' 3])
   = Inr ((example_state AirflowDatabaseSessionInterface [example_row ''user=9'' 2])
            \<lparr>calls := [SessionCount, SessionQuery, SessionDelete (example_row ''user=7'' 1),
                       SessionDelete (example_row ''user=7'' 3)]\<rparr>)"
  using reset_user_sessions_exact [of "example_state AirflowDatabaseSessionInterface
        [example_row ''user=7'' 1, example_row ''user=9'' 2, example_row ''user=7'' 3]"
        example_loads "example_user 7"]
  by (simp add: example_state_def readable_def owned_by_def owner_def example_loads_def
      example_row_def example_user_def want_bytes_def)

text \<open>
  Claim C3 as stated covers every table within the threshold. With a payload that does not
  deserialize in front of a session of user 7, the call raises and that session stays.
\<close>

theorem reset_user_sessions_exact_counterexample:
  "reset_user_sessions example_loads (example_user 7)
     (example_state AirflowDatabaseSessionInterface
        [example_row ''garbage'' 1, example_row ''user=7'' 2])
   = Inl (BadPayload,
          (example_state AirflowDatabaseSessionInterface
             [example_row ''garbage'' 1, example_row ''user=7'' 2])
            \<lparr>calls := [SessionCount, SessionQuery]\<rparr>)
   \<and> owned_by example_loads (example_user 7) (example_row ''user=7'' 2)"
  by (simp add: reset_user_sessions_def session_count_def session_query_def
      MAX_NUM_DATABASE_USER_SESSIONS_def owned_by_def owner_def
      example_state_def example_loads_def example_row_def example_user_def want_bytes_def)

section \<open>Payloads that do not deserialize\<close>

text \<open>
  Claim C4, as the code has it. When the payload of a row does not deserialize, and the
  rows before it do, \<^verbatim>\<open>reset_user_sessions\<close> raises the serializer's exception at that
  row: the user's rows before it have been handed to \<^verbatim>\<open>session.delete\<close>, no row from it
  onwards is visited, and nothing is flashed. \<^verbatim>\<open>reset_password\<close> for an existing user
  raises the same exception in the same state: \<^verbatim>\<open>update_user\<close> is not called and the user
  table is as it was.
\<close>

theorem reset_user_sessions_corrupt_aborts:
  assumes "session_interface st = AirflowDatabaseSessionInterface"
      and "length (sessions st) \<le> 50000"
      and "sessions st = pre @ bad # post"
      and "list_all (readable loads) pre"
      and "loads (want_bytes (data bad)) = Inl e"
  shows "reset_user_sessions loads u st =
           Inl (e, st\<lparr>sessions := filter (\<lambda>r. r \<notin> set (filter (owned_by loads u) pre)) (sessions st),
                      calls := calls st @ [SessionCount, SessionQuery] @
                               map SessionDelete (filter (owned_by loads u) pre)\<rparr>)
         \<and> (\<forall>h userid pw u0. get_user_by_id st userid = Some u0 \<longrightarrow>
              reset_password h loads userid pw st =
                Inl (e, st\<lparr>sessions :=
                            filter (\<lambda>r. r \<notin> set (filter (owned_by loads u0) pre)) (sessions st),
                          calls := calls st @ [SessionCount, SessionQuery] @
                                   map SessionDelete (filter (owned_by loads u0) pre)\<rparr>))"
proof -
  let ?st2 = "st\<lparr>calls := calls st @ [SessionCount, SessionQuery]\<rparr>"
  have scan: "reset_user_sessions loads v st =
      Inl (e, st\<lparr>sessions := filter (\<lambda>r. r \<notin> set (filter (owned_by loads v) pre)) (sessions st),
                 calls := calls st @ [SessionCount, SessionQuery] @
                          map SessionDelete (filter (owned_by loads v) pre)\<rparr>)" for v
  proof -
    have "reset_user_sessions loads v st =
          reset_user_sessions_loop loads v (pre @ bad # post) ?st2"
      using assms(1,2,3)
      by (simp add: reset_user_sessions_def session_count_def session_query_def
          MAX_NUM_DATABASE_USER_SESSIONS_def)
    also have "\<dots> = Inl (e, ?st2\<lparr>sessions :=
                 filter (\<lambda>r. r \<notin> set (filter (owned_by loads v) pre)) (sessions ?st2),
               calls := calls ?st2 @ map SessionDelete (filter (owned_by loads v) pre)\<rparr>)"
      by (simp add: loop_append loop_readable [OF assms(4)] assms(5))
    finally show ?thesis by simp
  qed
  have "reset_password h loads userid pw st =
      Inl (e, st\<lparr>sessions := filter (\<lambda>r. r \<notin> set (filter (owned_by loads u0) pre)) (sessions st),
                 calls := calls st @ [SessionCount, SessionQuery] @
                          map SessionDelete (filter (owned_by loads u0) pre)\<rparr>)"
    if "get_user_by_id st userid = Some u0" for h userid pw u0
    using that scan [of "u0\<lparr>password := h pw\<rparr>"]
    by (simp add: reset_password_def Let_def owned_by_password)
  with scan [of u] show ?thesis by blast
qed

text \<open>
  The theorem on a table whose third payload is garbage, for \<^verbatim>\<open>reset_user_sessions\<close> and
  for \<^verbatim>\<open>reset_password\<close>.
\<close>

theorem reset_user_sessions_corrupt_aborts_witness:
  "reset_user_sessions example_loads (example_user 7)
     (example_state AirflowDatabaseSessionInterface
        [example_row ''user=9'' 1, example_row ''user=7'' 2, example_row ''garbage'' 3,
         example_row ''user=7'' 4])
   = Inl (BadPayload,
          (example_state AirflowDatabaseSessionInterface
             [example_row ''user=9'' 1, example_row ''garbage'' 3, example_row ''user=7'' 4])
            \<lparr>calls := [SessionCount, SessionQuery, SessionDelete (example_row ''user=7'' 2)]\<rparr>)
   \<and> reset_password example_hash example_loads 7 ''new''
     (example_state AirflowDatabaseSessionInterface
        [example_row ''user=9'' 1, example_row ''user=7'' 2, example_row ''garbage'' 3,
         example_row ''user=7'' 4])
   = Inl (BadPayload,
          (example_state AirflowDatabaseSessionInterface
             [example_row ''user=9'' 1, example_row ''garbage'' 3, example_row ''user=7'' 4])
            \<lparr>calls := [SessionCount, SessionQuery, SessionDelete (example_row ''user=7'' 2)]\<rparr>)"
proof -
  let ?st = "example_state AirflowDatabaseSessionInterface
        [example_row ''user=9'' 1, example_row ''user=7'' 2, example_row ''garbage'' 3,
         example_row ''user=7'' 4]"
  have hyp: "session_interface ?st = AirflowDatabaseSessionInterface"
    "length (sessions ?st) \<le> 50000"
    "sessions ?st = [example_row ''user=9'' 1, example_row ''user=7'' 2] @
       example_row ''garbage'' 3 # [example_row ''user=7'' 4]"
    "list_all (readable example_loads) [example_row ''user=9'' 1, example_row ''user=7'' 2]"
    "example_loads (want_bytes (data (example_row ''garbage'' 3))) = Inl BadPayload"
    by (simp_all add: example_state_def readable_def example_loads_def example_row_def
        want_bytes_def)
  have user: "get_user_by_id ?st 7 = Some (example_user 7)"
    by (simp add: get_user_by_id_def example_state_def)
  have own: "filter (owned_by example_loads (example_user 7))
      [example_row ''user=9'' 1, example_row ''user=7'' 2] = [example_row ''user=7'' 2]"
    by (simp add: owned_by_def owner_def example_loads_def example_row_def example_user_def
        want_bytes_def)
  note t = reset_user_sessions_corrupt_aborts [OF hyp, of "example_user 7"]
  from t [THEN conjunct1, unfolded own]
    t [THEN conjunct2, rule_format, OF user, of example_hash "''new''", unfolded own]
  show ?thesis
    by (simp add: example_state_def example_row_def)
qed

text \<open>
  Claim C4 as stated has the scan skip a corrupt payload and go on. With garbage between
  two sessions of user 7, the second one is never reached, and \<^verbatim>\<open>reset_password\<close> raises
  the same exception before it updates the user.
\<close>

theorem corrupt_payload_counterexample:
  "reset_user_sessions example_loads (example_user 7)
     (example_state AirflowDatabaseSessionInterface
        [example_row ''user=7'' 1, example_row ''garbage'' 2, example_row ''user=7'' 3])
   = Inl (BadPayload,
          (example_state AirflowDatabaseSessionInterface
             [example_row ''garbage'' 2, example_row ''user=7'' 3])
            \<lparr>calls := [SessionCount, SessionQuery, SessionDelete (example_row ''user=7'' 1)]\<rparr>)
   \<and> reset_password example_hash example_loads 7 ''new''
     (example_state AirflowDatabaseSessionInterface
        [example_row ''user=7'' 1, example_row ''garbage'' 2, example_row ''user=7'' 3])
   = Inl (BadPayload,
          (example_state AirflowDatabaseSessionInterface
             [example_row ''garbage'' 2, example_row ''user=7'' 3])
            \<lparr>calls := [SessionCount, SessionQuery, SessionDelete (example_row ''user=7'' 1)]\<rparr>)"
  by (simp add: reset_password_def get_user_by_id_def Let_def
      reset_user_sessions_def session_count_def session_query_def session_delete_def
      MAX_NUM_DATABASE_USER_SESSIONS_def
      example_state_def example_loads_def example_row_def example_user_def want_bytes_def)

section \<open>Skipped revocation\<close>

text \<open>
  Claim C5. Without a database session interface \<^verbatim>\<open>reset_user_sessions\<close> returns
  normally, having flashed one warning and nothing else. And whenever the revocation is
  skipped, for that reason or because the table is over the threshold,
  \<^verbatim>\<open>reset_password\<close> of an existing user returns with the new hash stored for that user,
  the session table untouched and one warning flashed.
\<close>

theorem skipped_revocation_does_not_block_reset:
  "(session_interface st \<noteq> AirflowDatabaseSessionInterface \<longrightarrow>
      reset_user_sessions loads u st =
        Inr (st\<lparr>flashes := flashes st @ [(SecureCookieNotice (username u), ''warning'')],
                calls := calls st @ [Flash (SecureCookieNotice (username u))]\<rparr>))
   \<and> (get_user_by_id st userid = Some u0 \<and>
       (session_interface st \<noteq> AirflowDatabaseSessionInterface \<or> 50000 < length (sessions st)) \<longrightarrow>
      (\<exists>st' m. reset_password h loads userid pw st = Inr st' \<and>
         users st' = (users st)(uid u0 \<mapsto> u0\<lparr>password := h pw\<rparr>) \<and>
         sessions st' = sessions st \<and>
         flashes st' = flashes st @ [(m, ''warning'')]))"
  by (auto simp: reset_password_def reset_user_sessions_def Let_def flash_def update_user_def
      session_count_def MAX_NUM_DATABASE_USER_SESSIONS_def)

text \<open>
  The theorem with a cookie session interface, and with 50001 sessions in the database.
\<close>

theorem skipped_revocation_does_not_block_reset_witness:
  "reset_user_sessions example_loads (example_user 7)
     (example_state SecureCookieSessionInterface [example_row ''user=7'' 1])
   = Inr ((example_state SecureCookieSessionInterface [example_row ''user=7'' 1])
            \<lparr>flashes := [(SecureCookieNotice ''ann'', ''warning'')],
             calls := [Flash (SecureCookieNotice ''ann'')]\<rparr>)
   \<and> (\<exists>st' m. reset_password example_hash example_loads 7 ''new''
          (example_state AirflowDatabaseSessionInterface (example_rows ''user=7'' 50001)) = Inr st' \<and>
        users st' = [7 \<mapsto> (example_user 7)\<lparr>password := ''pbkdf2:new''\<rparr>] \<and>
        sessions st' = example_rows ''user=7'' 50001 \<and>
        flashes st' = [(m, ''warning'')])"
  using skipped_revocation_does_not_block_reset
          [of "example_state SecureCookieSessionInterface [example_row ''user=7'' 1]"
              example_loads "example_user 7" 7 "example_user 7" example_hash "''new''"]
        skipped_revocation_does_not_block_reset
          [of "example_state AirflowDatabaseSessionInterface (example_rows ''user=7'' 50001)"
              example_loads "example_user 7" 7 "example_user 7" example_hash "''new''"]
  by (simp add: example_state_def get_user_by_id_def length_example_rows example_hash_def
      example_user_def)

section \<open>Configuration defaults and the LDAP server check\<close>

lemma setdefault_apply:
  "setdefault k v cfg k' =
     (if k' = k then (case cfg k of None \<Rightarrow> Some v | Some x \<Rightarrow> Some x) else cfg k')"
  by (simp add: setdefault_def split: option.splits)

lemma setdefaults_Nil: "setdefaults [] cfg = cfg"
  by (simp add: setdefaults_def)

lemma setdefaults_Cons: "setdefaults ((k, v) # kvs) cfg = setdefaults kvs (setdefault k v cfg)"
  by (simp add: setdefaults_def)

lemma setdefaults_apply:
  "setdefaults kvs cfg k = (case cfg k of None \<Rightarrow> map_of kvs k | Some x \<Rightarrow> Some x)"
proof (induction kvs arbitrary: cfg)
  case Nil
  then show ?case by (simp add: setdefaults_Nil split: option.splits)
next
  case (Cons kv kvs)
  obtain k' v where kv: "kv = (k', v)" by (cases kv)
  have "setdefaults (kv # kvs) cfg k =
        (case setdefault k' v cfg k of None \<Rightarrow> map_of kvs k | Some x \<Rightarrow> Some x)"
    unfolding kv setdefaults_Cons by (rule Cons.IH)
  also have "\<dots> = (case cfg k of None \<Rightarrow> map_of (kv # kvs) k | Some x \<Rightarrow> Some x)"
    by (simp add: kv setdefault_apply split: option.splits)
  finally show ?case .
qed

lemma auth_type_after_defaults:
  "auth_type (setdefaults (registration_defaults r) (setdefaults base_defaults cfg)) =
     Inr (configured_auth_type cfg)"
  by (simp add: auth_type_def config_item_def setdefaults_apply base_defaults_def
      registration_defaults_def configured_auth_type_def config_or_def split: option.splits)

lemma auth_role_public_after_defaults:
  "auth_role_public (setdefaults base_defaults cfg) =
     Inr (config_or cfg ''AUTH_ROLE_PUBLIC'' (CStr ''Public''))"
  by (simp add: auth_role_public_def config_item_def setdefaults_apply base_defaults_def
      config_or_def split: option.splits)

lemma ldap_server_after_defaults:
  "setdefaults (registration_defaults r) (setdefaults base_defaults cfg) ''AUTH_LDAP_SERVER''
     = cfg ''AUTH_LDAP_SERVER''"
  by (simp add: setdefaults_apply base_defaults_def registration_defaults_def split: option.splits)

lemma init_config_cases:
  "init_config cfg =
     (if configured_auth_type cfg = CAuthType AUTH_LDAP then
        (if cfg ''AUTH_LDAP_SERVER'' = None then
           Inl (Exception ''No AUTH_LDAP_SERVER defined on config with AUTH_LDAP authentication type.'')
         else Inr (setdefaults rate_limit_defaults (setdefaults ldap_defaults
           (setdefaults (registration_defaults (config_or cfg ''AUTH_ROLE_PUBLIC'' (CStr ''Public'')))
             (setdefaults base_defaults cfg)))))
      else Inr (setdefaults rate_limit_defaults
           (setdefaults (registration_defaults (config_or cfg ''AUTH_ROLE_PUBLIC'' (CStr ''Public'')))
             (setdefaults base_defaults cfg))))"
  by (simp add: init_config_def Let_def auth_role_public_after_defaults auth_type_after_defaults
      ldap_server_after_defaults)

lemma init_config_ldap_lookup:
  assumes "init_config cfg = Inr cfg'" and "configured_auth_type cfg = CAuthType AUTH_LDAP"
  shows "cfg' k =
    (case cfg k of
       Some v \<Rightarrow> Some v
     | None \<Rightarrow>
        (case map_of base_defaults k of
           Some v \<Rightarrow> Some v
         | None \<Rightarrow>
            (case map_of (registration_defaults
                     (config_or cfg ''AUTH_ROLE_PUBLIC'' (CStr ''Public''))) k of
               Some v \<Rightarrow> Some v
             | None \<Rightarrow>
                (case map_of ldap_defaults k of
                   Some v \<Rightarrow> Some v
                 | None \<Rightarrow> map_of rate_limit_defaults k))))"
  using assms
  by (auto simp: init_config_cases setdefaults_apply split: if_splits option.splits)

lemma init_config_ldap_filled:
  assumes "init_config cfg = Inr cfg'" and "configured_auth_type cfg = CAuthType AUTH_LDAP"
    and "map_of ldap_defaults k = Some d"
    and "map_of base_defaults k = None"
    and "\<And>r. map_of (registration_defaults r) k = None"
  shows "cfg' k = Some (config_or cfg k d)"
  by (simp add: init_config_ldap_lookup [OF assms(1,2)] assms(3,4,5) config_or_def
      split: option.splits)

text \<open>
  Claim C6. When the auth type in force is LDAP and the configuration has no
  \<^verbatim>\<open>AUTH_LDAP_SERVER\<close>, \<^verbatim>\<open>_init_config\<close> raises its exception, and it raises in no other
  case. When the server is there it returns a configuration that keeps every setting
  made and holds, for the search filter, the domain to append, the TLS options and the
  uid, group, first name, last name and e-mail fields, the configured value or else the
  default of the code.
\<close>

theorem init_config_ldap:
  "(configured_auth_type cfg = CAuthType AUTH_LDAP \<and> cfg ''AUTH_LDAP_SERVER'' = None \<longrightarrow>
      init_config cfg =
        Inl (Exception ''No AUTH_LDAP_SERVER defined on config with AUTH_LDAP authentication type.''))
   \<and> ((\<exists>err. init_config cfg = Inl err) \<longleftrightarrow>
        configured_auth_type cfg = CAuthType AUTH_LDAP \<and> cfg ''AUTH_LDAP_SERVER'' = None)
   \<and> (configured_auth_type cfg = CAuthType AUTH_LDAP \<and> cfg ''AUTH_LDAP_SERVER'' \<noteq> None \<longrightarrow>
        (\<exists>cfg'. init_config cfg = Inr cfg' \<and>
           (\<forall>k v. cfg k = Some v \<longrightarrow> cfg' k = Some v) \<and>
           cfg' ''AUTH_LDAP_SEARCH_FILTER'' = Some (config_or cfg ''AUTH_LDAP_SEARCH_FILTER'' (CStr [])) \<and>
           cfg' ''AUTH_LDAP_APPEND_DOMAIN'' = Some (config_or cfg ''AUTH_LDAP_APPEND_DOMAIN'' (CStr [])) \<and>
           cfg' ''AUTH_LDAP_USE_TLS'' = Some (config_or cfg ''AUTH_LDAP_USE_TLS'' (CBool False)) \<and>
           cfg' ''AUTH_LDAP_ALLOW_SELF_SIGNED'' =
             Some (config_or cfg ''AUTH_LDAP_ALLOW_SELF_SIGNED'' (CBool False)) \<and>
           cfg' ''AUTH_LDAP_TLS_DEMAND'' = Some (config_or cfg ''AUTH_LDAP_TLS_DEMAND'' (CBool False)) \<and>
           cfg' ''AUTH_LDAP_TLS_CACERTDIR'' = Some (config_or cfg ''AUTH_LDAP_TLS_CACERTDIR'' (CStr [])) \<and>
           cfg' ''AUTH_LDAP_TLS_CACERTFILE'' = Some (config_or cfg ''AUTH_LDAP_TLS_CACERTFILE'' (CStr [])) \<and>
           cfg' ''AUTH_LDAP_TLS_CERTFILE'' = Some (config_or cfg ''AUTH_LDAP_TLS_CERTFILE'' (CStr [])) \<and>
           cfg' ''AUTH_LDAP_TLS_KEYFILE'' = Some (config_or cfg ''AUTH_LDAP_TLS_KEYFILE'' (CStr [])) \<and>
           cfg' ''AUTH_LDAP_UID_FIELD'' = Some (config_or cfg ''AUTH_LDAP_UID_FIELD'' (CStr ''uid'')) \<and>
           cfg' ''AUTH_LDAP_GROUP_FIELD'' =
             Some (config_or cfg ''AUTH_LDAP_GROUP_FIELD'' (CStr ''memberOf'')) \<and>
           cfg' ''AUTH_LDAP_FIRSTNAME_FIELD'' =
             Some (config_or cfg ''AUTH_LDAP_FIRSTNAME_FIELD'' (CStr ''givenName'')) \<and>
           cfg' ''AUTH_LDAP_LASTNAME_FIELD'' =
             Some (config_or cfg ''AUTH_LDAP_LASTNAME_FIELD'' (CStr ''sn'')) \<and>
           cfg' ''AUTH_LDAP_EMAIL_FIELD'' =
             Some (config_or cfg ''AUTH_LDAP_EMAIL_FIELD'' (CStr ''mail''))))"
proof (intro conjI impI)
  assume "configured_auth_type cfg = CAuthType AUTH_LDAP \<and> cfg ''AUTH_LDAP_SERVER'' = None"
  then show "init_config cfg =
      Inl (Exception ''No AUTH_LDAP_SERVER defined on config with AUTH_LDAP authentication type.'')"
    by (simp add: init_config_cases)
next
  show "(\<exists>err. init_config cfg = Inl err) \<longleftrightarrow>
        configured_auth_type cfg = CAuthType AUTH_LDAP \<and> cfg ''AUTH_LDAP_SERVER'' = None"
    by (simp add: init_config_cases)
next
  assume a: "configured_auth_type cfg = CAuthType AUTH_LDAP \<and> cfg ''AUTH_LDAP_SERVER'' \<noteq> None"
  then obtain cfg' where ok: "init_config cfg = Inr cfg'"
    by (auto simp: init_config_cases)
  have kept: "\<forall>k v. cfg k = Some v \<longrightarrow> cfg' k = Some v"
    by (simp add: init_config_ldap_lookup [OF ok conjunct1 [OF a]])
  note filled = init_config_ldap_filled [OF ok conjunct1 [OF a]]
  show "\<exists>cfg'. init_config cfg = Inr cfg' \<and>
           (\<forall>k v. cfg k = Some v \<longrightarrow> cfg' k = Some v) \<and>
           cfg' ''AUTH_LDAP_SEARCH_FILTER'' = Some (config_or cfg ''AUTH_LDAP_SEARCH_FILTER'' (CStr [])) \<and>
           cfg' ''AUTH_LDAP_APPEND_DOMAIN'' = Some (config_or cfg ''AUTH_LDAP_APPEND_DOMAIN'' (CStr [])) \<and>
           cfg' ''AUTH_LDAP_USE_TLS'' = Some (config_or cfg ''AUTH_LDAP_USE_TLS'' (CBool False)) \<and>
           cfg' ''AUTH_LDAP_ALLOW_SELF_SIGNED'' =
             Some (config_or cfg ''AUTH_LDAP_ALLOW_SELF_SIGNED'' (CBool False)) \<and>
           cfg' ''AUTH_LDAP_TLS_DEMAND'' = Some (config_or cfg ''AUTH_LDAP_TLS_DEMAND'' (CBool False)) \<and>
           cfg' ''AUTH_LDAP_TLS_CACERTDIR'' = Some (config_or cfg ''AUTH_LDAP_TLS_CACERTDIR'' (CStr [])) \<and>
           cfg' ''AUTH_LDAP_TLS_CACERTFILE'' = Some (config_or cfg ''AUTH_LDAP_TLS_CACERTFILE'' (CStr [])) \<and>
           cfg' ''AUTH_LDAP_TLS_CERTFILE'' = Some (config_or cfg ''AUTH_LDAP_TLS_CERTFILE'' (CStr [])) \<and>
           cfg' ''AUTH_LDAP_TLS_KEYFILE'' = Some (config_or cfg ''AUTH_LDAP_TLS_KEYFILE'' (CStr [])) \<and>
           cfg' ''AUTH_LDAP_UID_FIELD'' = Some (config_or cfg ''AUTH_LDAP_UID_FIELD'' (CStr ''uid'')) \<and>
           cfg' ''AUTH_LDAP_GROUP_FIELD'' =
             Some (config_or cfg ''AUTH_LDAP_GROUP_FIELD'' (CStr ''memberOf'')) \<and>
           cfg' ''AUTH_LDAP_FIRSTNAME_FIELD'' =
             Some (config_or cfg ''AUTH_LDAP_FIRSTNAME_FIELD'' (CStr ''givenName'')) \<and>
           cfg' ''AUTH_LDAP_LASTNAME_FIELD'' =
             Some (config_or cfg ''AUTH_LDAP_LASTNAME_FIELD'' (CStr ''sn'')) \<and>
           cfg' ''AUTH_LDAP_EMAIL_FIELD'' =
             Some (config_or cfg ''AUTH_LDAP_EMAIL_FIELD'' (CStr ''mail''))"
    apply (rule exI [of _ cfg'])
    apply (intro conjI ok kept)
                 apply (rule filled, simp add: ldap_defaults_def, simp add: base_defaults_def,
        simp add: registration_defaults_def)+
    done
qed

text \<open>
  The theorem on an LDAP configuration without a server, and on one with a server and its
  own uid field.
\<close>

theorem init_config_ldap_witness:
  "init_config [''AUTH_TYPE'' \<mapsto> CAuthType AUTH_LDAP] =
     Inl (Exception ''No AUTH_LDAP_SERVER defined on config with AUTH_LDAP authentication type.'')
   \<and> (\<exists>cfg'. init_config example_ldap_config = Inr cfg' \<and>
         cfg' ''AUTH_LDAP_SERVER'' = Some (CStr ''ldap://ldap.example.com'') \<and>
         cfg' ''AUTH_LDAP_UID_FIELD'' = Some (CStr ''cn'') \<and>
         cfg' ''AUTH_LDAP_SEARCH_FILTER'' = Some (CStr []) \<and>
         cfg' ''AUTH_LDAP_USE_TLS'' = Some (CBool False) \<and>
         cfg' ''AUTH_LDAP_EMAIL_FIELD'' = Some (CStr ''mail''))"
proof -
  have none: "configured_auth_type [''AUTH_TYPE'' \<mapsto> CAuthType AUTH_LDAP] = CAuthType AUTH_LDAP \<and>
      [''AUTH_TYPE'' \<mapsto> CAuthType AUTH_LDAP] ''AUTH_LDAP_SERVER'' = None"
    by (simp add: configured_auth_type_def config_or_def)
  have some: "configured_auth_type example_ldap_config = CAuthType AUTH_LDAP \<and>
      example_ldap_config ''AUTH_LDAP_SERVER'' \<noteq> None"
    by (simp add: configured_auth_type_def config_or_def example_ldap_config_def)
  have vals: "example_ldap_config ''AUTH_LDAP_SERVER'' = Some (CStr ''ldap://ldap.example.com'')"
    "config_or example_ldap_config ''AUTH_LDAP_UID_FIELD'' (CStr ''uid'') = CStr ''cn''"
    "config_or example_ldap_config ''AUTH_LDAP_SEARCH_FILTER'' (CStr []) = CStr []"
    "config_or example_ldap_config ''AUTH_LDAP_USE_TLS'' (CBool False) = CBool False"
    "config_or example_ldap_config ''AUTH_LDAP_EMAIL_FIELD'' (CStr ''mail'') = CStr ''mail''"
    by (simp_all add: config_or_def example_ldap_config_def)
  from init_config_ldap [of "[''AUTH_TYPE'' \<mapsto> CAuthType AUTH_LDAP]"] none
  have a: "init_config [''AUTH_TYPE'' \<mapsto> CAuthType AUTH_LDAP] =
     Inl (Exception ''No AUTH_LDAP_SERVER defined on config with AUTH_LDAP authentication type.'')"
    by blast
  from init_config_ldap [of example_ldap_config] some
  obtain cfg' where f: "init_config example_ldap_config = Inr cfg'"
    "\<forall>k v. example_ldap_config k = Some v \<longrightarrow> cfg' k = Some v"
    "cfg' ''AUTH_LDAP_UID_FIELD'' =
       Some (config_or example_ldap_config ''AUTH_LDAP_UID_FIELD'' (CStr ''uid''))"
    "cfg' ''AUTH_LDAP_SEARCH_FILTER'' =
       Some (config_or example_ldap_config ''AUTH_LDAP_SEARCH_FILTER'' (CStr []))"
    "cfg' ''AUTH_LDAP_USE_TLS'' =
       Some (config_or example_ldap_config ''AUTH_LDAP_USE_TLS'' (CBool False))"
    "cfg' ''AUTH_LDAP_EMAIL_FIELD'' =
       Some (config_or example_ldap_config ''AUTH_LDAP_EMAIL_FIELD'' (CStr ''mail''))"
    by blast
  from f(2) vals(1) have srv: "cfg' ''AUTH_LDAP_SERVER'' = Some (CStr ''ldap://ldap.example.com'')"
    by simp
  have b: "\<exists>cfg'. init_config example_ldap_config = Inr cfg' \<and>
         cfg' ''AUTH_LDAP_SERVER'' = Some (CStr ''ldap://ldap.example.com'') \<and>
         cfg' ''AUTH_LDAP_UID_FIELD'' = Some (CStr ''cn'') \<and>
         cfg' ''AUTH_LDAP_SEARCH_FILTER'' = Some (CStr []) \<and>
         cfg' ''AUTH_LDAP_USE_TLS'' = Some (CBool False) \<and>
         cfg' ''AUTH_LDAP_EMAIL_FIELD'' = Some (CStr ''mail'')"
    using f(1) srv f(3-6) [unfolded vals(2-5)] by (intro exI [of _ cfg'] conjI)
  from a b show ?thesis by (rule conjI)
qed

section \<open>Registration of the OAuth allow lists\<close>

lemma register_provider_allow_list:
  "oauth_allow_list (register_provider q m) =
     (case whitelist q of
        Some allowed \<Rightarrow> (oauth_allow_list m)(name q \<mapsto> allowed)
      | None \<Rightarrow> oauth_allow_list m)"
  by (simp add: register_provider_def Let_def split: option.splits)

lemma register_providers_untouched:
  "n \<notin> name ` set ps \<Longrightarrow>
   oauth_allow_list (register_providers ps m) n = oauth_allow_list m n"
proof (induction ps arbitrary: m)
  case Nil
  then show ?case by simp
next
  case (Cons q ps)
  let ?m3 = "register_provider q m"
  note m3 = register_provider_allow_list [of q m]
  from Cons.prems have "n \<notin> name ` set ps" and "n \<noteq> name q" by auto
  with Cons.IH [of ?m3] show ?case
    by (simp add: m3 split: option.splits)
qed

lemma register_providers_keeps:
  "oauth_allow_list m n \<noteq> None \<Longrightarrow> oauth_allow_list (register_providers ps m) n \<noteq> None"
proof (induction ps arbitrary: m)
  case Nil
  then show ?case by simp
next
  case (Cons q ps)
  let ?m3 = "register_provider q m"
  note m3 = register_provider_allow_list [of q m]
  from Cons.prems have "oauth_allow_list ?m3 n \<noteq> None"
    by (simp add: m3 split: option.splits)
  from Cons.IH [OF this] show ?case by simp
qed

lemma register_providers_declared:
  "p \<in> set ps \<Longrightarrow> whitelist p \<noteq> None \<Longrightarrow>
   oauth_allow_list (register_providers ps m) (name p) \<noteq> None"
proof (induction ps arbitrary: m)
  case Nil
  then show ?case by simp
next
  case (Cons q ps)
  let ?m3 = "register_provider q m"
  note m3 = register_provider_allow_list [of q m]
  show ?case
  proof (cases "p \<in> set ps")
    case True
    from Cons.IH [OF True Cons.prems(2), of ?m3] show ?thesis by simp
  next
    case False
    with Cons.prems have "p = q" by simp
    with Cons.prems(2) have "oauth_allow_list ?m3 (name p) \<noteq> None"
      by (auto simp: m3)
    from register_providers_keeps [OF this] show ?thesis by simp
  qed
qed

lemma register_providers_source:
  "oauth_allow_list (register_providers ps m) n = Some allowed \<Longrightarrow>
   (\<exists>p\<in>set ps. name p = n \<and> whitelist p = Some allowed) \<or> oauth_allow_list m n = Some allowed"
proof (induction ps arbitrary: m)
  case Nil
  then show ?case by simp
next
  case (Cons q ps)
  let ?m3 = "register_provider q m"
  note m3 = register_provider_allow_list [of q m]
  from Cons.prems have "oauth_allow_list (register_providers ps ?m3) n = Some allowed"
    by simp
  from Cons.IH [OF this] show ?case
    by (auto simp: m3 split: option.splits if_splits)
qed

lemma register_providers_distinct:
  "distinct (map name ps) \<Longrightarrow> p \<in> set ps \<Longrightarrow>
   oauth_allow_list (register_providers ps m) (name p) =
     (case whitelist p of Some allowed \<Rightarrow> Some allowed | None \<Rightarrow> oauth_allow_list m (name p))"
proof (induction ps arbitrary: m)
  case Nil
  then show ?case by simp
next
  case (Cons q ps)
  let ?m3 = "register_provider q m"
  note m3 = register_provider_allow_list [of q m]
  from Cons.prems(1) have fresh: "name q \<notin> name ` set ps" and d: "distinct (map name ps)"
    by simp_all
  show ?case
  proof (cases "p \<in> set ps")
    case True
    with fresh have ne: "name p \<noteq> name q" by (auto simp: image_iff)
    from Cons.IH [OF d True, of ?m3] ne show ?thesis
      by (simp add: m3 split: option.splits)
  next
    case False
    with Cons.prems(2) have pq: "p = q" by simp
    from register_providers_untouched [OF fresh, of ?m3] show ?thesis
      by (simp add: m3 pq split: option.splits)
  qed
qed

text \<open>
  Claim C8. With auth type OAUTH, the providers \<open>ps\<close> configured and the allow-list
  registry as the class defines it (empty), \<^verbatim>\<open>_init_auth\<close> returns with a registry that
  has an entry for a name exactly when a descriptor of that name declares an allow list,
  every entry being the list declared by a descriptor of its name; when the descriptors
  have distinct names, the registry holds at each provider's name what its descriptor
  declares: the declared list, or no entry when it declares none.
\<close>

theorem init_auth_oauth_allow_list:
  assumes "auth_type (config m) = Inr (CAuthType AUTH_OAUTH)"
    and "oauth_providers (config m) = Inr (CProviders ps)"
    and "oauth_allow_list m = Map.empty"
  shows "\<exists>m'. init_auth m = Inr m' \<and>
           (\<forall>n. oauth_allow_list m' n \<noteq> None \<longleftrightarrow>
                  (\<exists>p\<in>set ps. name p = n \<and> whitelist p \<noteq> None)) \<and>
           (\<forall>n allowed. oauth_allow_list m' n = Some allowed \<longrightarrow>
                  (\<exists>p\<in>set ps. name p = n \<and> whitelist p = Some allowed)) \<and>
           (distinct (map name ps) \<longrightarrow>
              (\<forall>p\<in>set ps. oauth_allow_list m' (name p) = whitelist p))"
proof -
  let ?m0 = "m\<lparr>oauth_remotes := Map.empty\<rparr>"
  let ?m' = "register_providers ps ?m0"
  have run: "init_auth m = Inr ?m'"
    using assms(1,2) by (simp add: init_auth_def Let_def)
  have empty: "oauth_allow_list ?m0 = Map.empty"
    using assms(3) by simp
  have src: "\<forall>n allowed. oauth_allow_list ?m' n = Some allowed \<longrightarrow>
      (\<exists>p\<in>set ps. name p = n \<and> whitelist p = Some allowed)"
    using register_providers_source [of ps ?m0] empty by fastforce
  have dom: "\<forall>n. oauth_allow_list ?m' n \<noteq> None \<longleftrightarrow>
      (\<exists>p\<in>set ps. name p = n \<and> whitelist p \<noteq> None)"
  proof (intro allI iffI)
    fix n assume "oauth_allow_list ?m' n \<noteq> None"
    then obtain allowed where "oauth_allow_list ?m' n = Some allowed" by auto
    with src show "\<exists>p\<in>set ps. name p = n \<and> whitelist p \<noteq> None" by fastforce
  next
    fix n assume "\<exists>p\<in>set ps. name p = n \<and> whitelist p \<noteq> None"
    then show "oauth_allow_list ?m' n \<noteq> None"
      using register_providers_declared [of _ ps ?m0] by blast
  qed
  have dist: "distinct (map name ps) \<longrightarrow> (\<forall>p\<in>set ps. oauth_allow_list ?m' (name p) = whitelist p)"
  proof (intro impI ballI)
    fix p assume "distinct (map name ps)" and "p \<in> set ps"
    from register_providers_distinct [OF this, of ?m0] empty
    show "oauth_allow_list ?m' (name p) = whitelist p"
      by (simp split: option.splits)
  qed
  from run src dom dist show ?thesis by blast
qed

text \<open>The theorem on a provider with an allow list and one without.\<close>

theorem init_auth_oauth_allow_list_witness:
  "\<exists>m'. init_auth example_oauth_manager = Inr m' \<and>
      oauth_allow_list m' ''google'' = Some [''ann@example.com''] \<and>
      oauth_allow_list m' ''github'' = None"
proof -
  let ?ps = "[\<lparr>name = ''google'', remote_app = [(''client_id'', ''g'')],
              whitelist = Some [''ann@example.com'']\<rparr>,
             \<lparr>name = ''github'', remote_app = [(''client_id'', ''h'')], whitelist = None\<rparr>]"
  have a: "auth_type (config example_oauth_manager) = Inr (CAuthType AUTH_OAUTH)"
    and b: "oauth_providers (config example_oauth_manager) = Inr (CProviders ?ps)"
    and c: "oauth_allow_list example_oauth_manager = Map.empty"
    by (simp_all add: example_oauth_manager_def auth_type_def oauth_providers_def config_item_def)
  have d: "distinct (map name ?ps)" by simp
  from init_auth_oauth_allow_list [OF a b c] d
  obtain m' where m': "init_auth example_oauth_manager = Inr m'"
    "\<forall>p\<in>set ?ps. oauth_allow_list m' (name p) = whitelist p"
    by blast
  from m'(2) have "oauth_allow_list m' ''google'' = Some [''ann@example.com'']"
    "oauth_allow_list m' ''github'' = None"
    by simp_all
  with m'(1) show ?thesis by blast
qed

section \<open>Loading a user from a token\<close>

text \<open>
  Claim C9. For a payload whose subject is \<open>s\<close>, \<^verbatim>\<open>load_user_jwt\<close> returns what
  \<^verbatim>\<open>load_user\<close> returns for \<open>s\<close> and leaves the state as it was but for \<^verbatim>\<open>g.user\<close>, which
  holds that same result; when \<^verbatim>\<open>load_user\<close> raises, so does \<^verbatim>\<open>load_user_jwt\<close>, with
  nothing written.
\<close>

theorem load_user_jwt_context_write:
  assumes "jwt_data ''sub'' = Some s"
  shows "(\<forall>u. load_user db st s = Inr u \<longrightarrow>
            load_user_jwt db st jwt_header jwt_data = Inr (u, st\<lparr>g_user := u\<rparr>))
       \<and> (\<forall>err. load_user db st s = Inl err \<longrightarrow>
            load_user_jwt db st jwt_header jwt_data = Inl err)"
  using assms by (simp add: load_user_jwt_def)

text \<open>The theorem on a token whose subject is the string \<^verbatim>\<open>7\<close>, the code point 55.\<close>

theorem load_user_jwt_context_write_witness:
  "load_user_jwt example_unicode_db (example_state SecureCookieSessionInterface []) ()
     [''sub'' \<mapsto> StrKey [55]]
     = Inr (Some (example_user 7),
            (example_state SecureCookieSessionInterface [])\<lparr>g_user := Some (example_user 7)\<rparr>)"
proof -
  have sub: "[''sub'' \<mapsto> StrKey [55]] ''sub'' = Some (StrKey [55])" by simp
  have "load_user example_unicode_db (example_state SecureCookieSessionInterface []) (StrKey [55])
          = Inr (Some (example_user 7))"
    by (simp add: load_user_def int_of_string_def long_from_string_def ascii_of_def strip_def
        is_space_def parse_digits_def is_digit_def digit_value_def get_user_by_id_def
        example_state_def)
  with load_user_jwt_context_write [where jwt_data = "[''sub'' \<mapsto> StrKey [55]]"
      and s = "StrKey [55]" and st = "example_state SecureCookieSessionInterface []"
      and jwt_header = "()" and db = example_unicode_db, OF sub]
  show ?thesis by simp
qed

section \<open>Decimal strings and \<^verbatim>\<open>int\<close>\<close>

lemma is_digit_decimal: "d < 10 \<Longrightarrow> is_digit (48 + d)"
  by (simp add: is_digit_def)

lemma is_digit_not_space: "is_digit c \<Longrightarrow> \<not> is_space c"
  by (auto simp: is_digit_def is_space_def)

lemma is_digit_not_sign: "is_digit c \<Longrightarrow> c \<noteq> 45 \<and> c \<noteq> 43"
  by (auto simp: is_digit_def)

lemma is_digit_ascii: "is_digit c \<Longrightarrow> c < 128"
  by (simp add: is_digit_def)

lemma decimal_digits_all:
  "list_all is_digit acc \<Longrightarrow> list_all is_digit (decimal_digits n acc)"
proof (induction n acc rule: decimal_digits.induct)
  case (1 n acc)
  show ?case
  proof (cases "n < 10")
    case True
    with "1.prems" show ?thesis
      by (subst decimal_digits.simps) (simp add: is_digit_decimal)
  next
    case False
    have "list_all is_digit ((48 + n mod 10) # acc)"
      using "1.prems" by (simp add: is_digit_decimal)
    from "1.IH" [OF False this] False show ?thesis
      by (subst decimal_digits.simps) simp
  qed
qed

lemma decimal_digits_not_Nil: "decimal_digits n acc \<noteq> []"
proof (induction n acc rule: decimal_digits.induct)
  case (1 n acc)
  then show ?case
    by (subst decimal_digits.simps) (simp del: decimal_digits.simps)
qed

lemma decimal_digits_value:
  "foldl (\<lambda>a c. 10 * a + digit_value c) 0 (decimal_digits n acc) =
   foldl (\<lambda>a c. 10 * a + digit_value c) n acc"
proof (induction n acc rule: decimal_digits.induct)
  case (1 n acc)
  show ?case
  proof (cases "n < 10")
    case True
    then show ?thesis
      by (subst decimal_digits.simps) (simp add: digit_value_def)
  next
    case False
    with "1.IH" [OF False] show ?thesis
      by (subst decimal_digits.simps) (simp add: digit_value_def del: decimal_digits.simps)
  qed
qed

lemma more_digits_all:
  "list_all is_digit ds \<Longrightarrow>
   more_digits a ds = Some (foldl (\<lambda>a c. 10 * a + digit_value c) a ds)"
  by (induction a ds rule: more_digits.induct) simp_all

lemma parse_digits_all:
  "ds \<noteq> [] \<Longrightarrow> list_all is_digit ds \<Longrightarrow>
   parse_digits ds = Some (foldl (\<lambda>a c. 10 * a + digit_value c) 0 ds)"
  by (cases ds) (simp_all add: parse_digits_def more_digits_all)

lemma parse_decimal_digits: "parse_digits (decimal_digits n []) = Some n"
  using parse_digits_all [OF decimal_digits_not_Nil decimal_digits_all, of "[]" n]
  by (simp add: decimal_digits_value del: decimal_digits.simps)

lemma strip_id:
  assumes "s \<noteq> []" and "\<not> is_space (hd s)" and "\<not> is_space (last s)"
  shows "strip s = s"
proof -
  from assms(1,2) have a: "dropWhile is_space s = s" by (cases s) simp_all
  from assms(1,3) have b: "dropWhile is_space (rev s) = rev s"
    by (cases "rev s") (simp_all add: hd_rev [symmetric])
  show ?thesis by (simp add: strip_def a b)
qed

lemma strip_digits:
  assumes "ds \<noteq> []" and "list_all is_digit ds"
  shows "strip ds = ds" and "strip (45 # ds) = 45 # ds"
proof -
  from assms have h: "is_digit (hd ds)" and l: "is_digit (last ds)"
    by (simp_all add: list_all_iff)
  from assms(1) h l show "strip ds = ds"
    by (intro strip_id) (simp_all add: is_digit_not_space)
  have m: "\<not> is_space 45" by (simp add: is_space_def)
  from assms(1) l m show "strip (45 # ds) = 45 # ds"
    by (intro strip_id) (simp_all add: is_digit_not_space)
qed

lemma long_from_decimal_string: "long_from_string (decimal_string n) = Inr n"
proof -
  let ?pos = "decimal_digits (nat n) []" and ?neg = "decimal_digits (nat (- n)) []"
  note d = decimal_digits_not_Nil decimal_digits_all
  show ?thesis
  proof (cases "n < 0")
    case True
    have "strip (45 # ?neg) = 45 # ?neg"
      by (rule strip_digits(2)) (simp_all add: d del: decimal_digits.simps)
    with True show ?thesis
      by (simp add: long_from_string_def decimal_string_def parse_decimal_digits
          del: decimal_digits.simps)
  next
    case False
    have s: "strip ?pos = ?pos"
      by (rule strip_digits(1)) (simp_all add: d del: decimal_digits.simps)
    obtain c cs where cs: "?pos = c # cs"
      using decimal_digits_not_Nil [of "nat n" "[]"] by (cases ?pos) auto
    have "is_digit c"
      using decimal_digits_all [of "[]" "nat n"] by (simp add: cs del: decimal_digits.simps)
    then have sign: "c \<noteq> 45" "c \<noteq> 43"
      by (simp_all add: is_digit_not_sign)
    have "parse_digits (c # cs) = Some (nat n)"
      using parse_decimal_digits [of "nat n"] by (simp only: cs)
    with False s sign show ?thesis
      by (simp add: long_from_string_def decimal_string_def cs del: decimal_digits.simps)
  qed
qed

lemma decimal_string_ascii: "c \<in> set (decimal_string n) \<Longrightarrow> c < 128"
  using decimal_digits_all [of "[]" "nat n"] decimal_digits_all [of "[]" "nat (- n)"]
  by (auto simp: decimal_string_def list_all_iff is_digit_ascii
      simp del: decimal_digits.simps split: if_splits)

lemma int_of_decimal_string: "int_of_string db (decimal_string n) = Inr n"
proof -
  have "map (ascii_of db) (decimal_string n) = decimal_string n"
    by (rule map_idI) (simp add: ascii_of_def decimal_string_ascii)
  then show ?thesis
    by (simp add: int_of_string_def long_from_decimal_string)
qed

text \<open>
  Claim C7. For every integer \<open>n\<close>, \<^verbatim>\<open>load_user\<close> of the decimal string of \<open>n\<close> and
  \<^verbatim>\<open>load_user\<close> of the integer \<open>n\<close> are the same lookup of the user with id \<open>n\<close>, and
  \<^verbatim>\<open>load_user_jwt\<close> of a payload whose subject is that string returns that user too.
\<close>

theorem load_user_decimal_string:
  "load_user db st (StrKey (decimal_string n)) = load_user db st (IntKey n)
   \<and> load_user db st (IntKey n) = Inr (get_user_by_id st n)
   \<and> (jwt_data ''sub'' = Some (StrKey (decimal_string n)) \<longrightarrow>
        load_user_jwt db st jwt_header jwt_data =
          Inr (get_user_by_id st n, st\<lparr>g_user := get_user_by_id st n\<rparr>))"
  by (simp add: load_user_def load_user_jwt_def int_of_decimal_string)

text \<open>The theorem at \<open>n = 7\<close>, whose decimal string is \<^verbatim>\<open>7\<close>.\<close>

theorem load_user_decimal_string_witness:
  "decimal_string 7 = code_points ''7''
   \<and> load_user example_unicode_db (example_state SecureCookieSessionInterface [])
         (StrKey (code_points ''7''))
       = Inr (Some (example_user 7))
   \<and> load_user example_unicode_db (example_state SecureCookieSessionInterface []) (IntKey 7)
       = Inr (Some (example_user 7))
   \<and> load_user_jwt example_unicode_db (example_state SecureCookieSessionInterface []) ()
         [''sub'' \<mapsto> StrKey (code_points ''7'')]
       = Inr (Some (example_user 7),
              (example_state SecureCookieSessionInterface [])\<lparr>g_user := Some (example_user 7)\<rparr>)"
proof -
  have d: "decimal_string 7 = code_points ''7''"
    by (simp add: decimal_string_def code_points_def)
  have g: "get_user_by_id (example_state SecureCookieSessionInterface []) 7 = Some (example_user 7)"
    by (simp add: get_user_by_id_def example_state_def)
  have sub: "[''sub'' \<mapsto> StrKey (code_points ''7'')] ''sub'' = Some (StrKey (decimal_string 7))"
    by (simp add: d)
  from load_user_decimal_string [of example_unicode_db
      "example_state SecureCookieSessionInterface []" 7
      "[''sub'' \<mapsto> StrKey (code_points ''7'')]" "()"] sub
  show ?thesis
    by (simp add: d g)
qed

section \<open>Strings that are not integers\<close>








text \<open>
  \<^verbatim>\<open>int\<close> on strings beyond plain digits, with the example database: a file separator
  (28) is not skipped as whitespace; a no-break space (160) is; the Arabic-Indic digit
  seven (1639) and an underscore between digits are read; a lone sign is not.
\<close>

lemma int_of_string_examples:
  "int_of_string example_unicode_db [28, 55] = Inl ValueError"
  "int_of_string example_unicode_db [160, 55] = Inr 7"
  "int_of_string example_unicode_db [1639] = Inr 7"
  "int_of_string example_unicode_db (code_points '' -1_0 '') = Inr (- 10)"
  "int_of_string example_unicode_db (code_points ''-'') = Inl ValueError"
  by (simp_all add: int_of_string_def long_from_string_def ascii_of_def strip_def is_space_def
      parse_digits_def is_digit_def digit_value_def example_unicode_db_def code_points_def)



end
